theory Spec2Isabelle
  imports Main
begin

section \<open>Credential codec (utils/auth.js)\<close>

text \<open>
  The server signs and verifies its credentials with the jsonwebtoken package
  (\<^verbatim>\<open>jwt.sign\<close>, \<^verbatim>\<open>jwt.verify\<close>). A token is modelled symbolically, as the
  protocol theories of HOL/Auth model cryptographic messages: a signed token is
  the secret it was signed with and its payload, anything else a cookie or a
  header can carry is an opaque string. Two signed tokens are the same string
  exactly when secret and payload agree, which is what an HS256 signature over
  the encoded payload gives: the encoding is deterministic, and no token
  verifies under a secret it was not signed with.

  Time is \<^verbatim>\<open>Date.now()\<close>, in milliseconds. The package works on whole seconds:
  \<^verbatim>\<open>iat = Math.floor(Date.now() / 1000)\<close>, \<^verbatim>\<open>exp = iat + expiresIn\<close>, and
  \<^verbatim>\<open>verify\<close> throws TokenExpiredError when
  \<^verbatim>\<open>Math.floor(Date.now() / 1000) >= exp + clockTolerance\<close>, where utils/auth.js
  passes no \<^verbatim>\<open>clockTolerance\<close> (so it is 0).
\<close>

type_synonym user_id = nat
type_synonym millis = nat

datatype claims =
  AccessClaims user_id string bool
| RefreshClaims user_id

fun userId :: "claims \<Rightarrow> user_id" where
  "userId (AccessClaims i e a) = i"
| "userId (RefreshClaims i) = i"

datatype payload = Payload (claims: claims) (iat: nat) (exp: nat)

datatype token =
  Signed string payload
| Opaque string

text \<open>JavaScript truthiness of a cookie or header value: only the empty string is falsy.\<close>

fun truthy :: "token \<Rightarrow> bool" where
  "truthy (Opaque s) = (s \<noteq> [])"
| "truthy (Signed k p) = True"

definition clock :: "millis \<Rightarrow> nat" where
  "clock now = now div 1000"

definition jwt_sign :: "claims \<Rightarrow> string \<Rightarrow> nat \<Rightarrow> millis \<Rightarrow> token" where
  "jwt_sign c secret expiresIn now =
     Signed secret (Payload c (clock now) (clock now + expiresIn))"

fun jwt_verify :: "token \<Rightarrow> string \<Rightarrow> millis \<Rightarrow> payload option" where
  "jwt_verify (Signed k p) secret now =
     (if k = secret \<and> \<not> (exp p \<le> clock now) then Some p else None)"
| "jwt_verify (Opaque s) secret now = None"

text \<open>\<^verbatim>\<open>const JWT_SECRET = process.env.JWT_SECRET || 'devsecret'\<close>; the argument is
  the environment variable, \<open>None\<close> when it is not set.\<close>

definition JWT_SECRET :: "string option \<Rightarrow> string" where
  "JWT_SECRET env =
     (case env of None \<Rightarrow> ''devsecret'' | Some s \<Rightarrow> if s = [] then ''devsecret'' else s)"

text \<open>\<^verbatim>\<open>'15m'\<close> and \<^verbatim>\<open>'7d'\<close>, in the seconds jsonwebtoken turns them into.\<close>

definition ACCESS_TOKEN_EXPIRY :: nat where
  "ACCESS_TOKEN_EXPIRY = 15 * 60"

definition REFRESH_TOKEN_EXPIRY :: nat where
  "REFRESH_TOKEN_EXPIRY = 7 * 24 * 60 * 60"

record refresh_entry =
  token :: token
  createdAt :: millis

record user =
  user_id :: user_id
  name :: string
  email :: string
  passwordHash :: string
  isAdmin :: bool
  refreshTokens :: "refresh_entry list"

definition generateAccessToken :: "string option \<Rightarrow> millis \<Rightarrow> user \<Rightarrow> token" where
  "generateAccessToken env now u =
     jwt_sign (AccessClaims (user_id u) (email u) (isAdmin u)) (JWT_SECRET env)
       ACCESS_TOKEN_EXPIRY now"

definition generateRefreshToken :: "string option \<Rightarrow> millis \<Rightarrow> user \<Rightarrow> token" where
  "generateRefreshToken env now u =
     jwt_sign (RefreshClaims (user_id u)) (JWT_SECRET env) REFRESH_TOKEN_EXPIRY now"

definition verifyAccessToken :: "string option \<Rightarrow> millis \<Rightarrow> token \<Rightarrow> payload option" where
  "verifyAccessToken env now t = jwt_verify t (JWT_SECRET env) now"

definition verifyRefreshToken :: "string option \<Rightarrow> millis \<Rightarrow> token \<Rightarrow> payload option" where
  "verifyRefreshToken env now t = jwt_verify t (JWT_SECRET env) now"

section \<open>The user collection (models/User.js)\<close>

text \<open>
  The collection is the list of its documents, in insertion order.
  \<^verbatim>\<open>User.findById\<close> and \<^verbatim>\<open>User.findOne\<close> return the first document that
  matches, \<^verbatim>\<open>user.save()\<close> writes a document back over the stored one with the
  same \<^verbatim>\<open>_id\<close>, \<^verbatim>\<open>User.create\<close> stores a new document under an \<^verbatim>\<open>_id\<close> no
  stored document has (the schema defaults: \<^verbatim>\<open>isAdmin\<close> false, no refresh
  tokens).
\<close>

type_synonym db = "user list"

definition findById :: "user_id \<Rightarrow> db \<Rightarrow> user option" where
  "findById i d = find (\<lambda>u. user_id u = i) d"

definition findOne :: "(user \<Rightarrow> bool) \<Rightarrow> db \<Rightarrow> user option" where
  "findOne P d = find P d"

fun save :: "user \<Rightarrow> db \<Rightarrow> db" where
  "save u [] = []"
| "save u (v # vs) = (if user_id v = user_id u then u # vs else v # save u vs)"

definition new_id :: "db \<Rightarrow> user_id" where
  "new_id d = Suc (foldr max (map user_id d) 0)"

definition create :: "string \<Rightarrow> string \<Rightarrow> string \<Rightarrow> db \<Rightarrow> user \<times> db" where
  "create n e h d =
     (let u = \<lparr>user_id = new_id d, name = n, email = e, passwordHash = h,
                isAdmin = False, refreshTokens = []\<rparr>
      in (u, d @ [u]))"

text \<open>The array operations the handlers use on \<^verbatim>\<open>user.refreshTokens\<close>.\<close>

fun findIndex :: "('a \<Rightarrow> bool) \<Rightarrow> 'a list \<Rightarrow> nat option" where
  "findIndex P [] = None"
| "findIndex P (x # xs) = (if P x then Some 0 else map_option Suc (findIndex P xs))"

definition splice1 :: "nat \<Rightarrow> 'a list \<Rightarrow> 'a list" where
  "splice1 i xs = take i xs @ drop (Suc i) xs"

definition push :: "'a list \<Rightarrow> 'a \<Rightarrow> 'a list" where
  "push xs x = xs @ [x]"

definition shift :: "'a list \<Rightarrow> 'a list" where
  "shift xs = tl xs"

section \<open>Requests, responses and the transport carriers\<close>

text \<open>
  Of a request the handlers read the method, the \<^verbatim>\<open>Authorization\<close> header (here
  already split at its spaces, as \<^verbatim>\<open>auth.split(' ')\<close> does), the two cookies
  and the JSON body of a login or a registration. Of a response they set the
  status, the JSON body and the \<^verbatim>\<open>Set-Cookie\<close> header. A cookie is its name, its
  value and its \<^verbatim>\<open>maxAge\<close>; the attributes of \<^verbatim>\<open>COOKIE_OPTIONS\<close> are the same on
  every cookie and are left out.
\<close>

record credentials =
  cred_name :: "string option"
  cred_email :: "string option"
  cred_password :: "string option"

record request =
  req_method :: string
  authorization :: "token list option"
  access_token :: "token option"
  refresh_token :: "token option"
  req_body :: credentials

record user_summary =
  sum_id :: user_id
  sum_name :: string
  sum_email :: string
  sum_isAdmin :: bool

datatype reply =
  NoBody
| Error string
| Ok
| OkToken token
| UserToken user_summary token
| OkUserToken user_summary token
| UserDoc user_summary

datatype cookie = Cookie string token int

record response =
  status :: nat
  body :: reply
  set_cookie :: "cookie list"

definition summary :: "user \<Rightarrow> user_summary" where
  "summary u = \<lparr>sum_id = user_id u, sum_name = name u, sum_email = email u,
                sum_isAdmin = isAdmin u\<rparr>"

definition setAuthCookies :: "token \<Rightarrow> token \<Rightarrow> cookie list" where
  "setAuthCookies accessToken refreshToken =
     [Cookie ''access_token'' accessToken (15 * 60),
      Cookie ''refresh_token'' refreshToken (7 * 24 * 60 * 60)]"

definition clearAuthCookies :: "cookie list" where
  "clearAuthCookies =
     [Cookie ''access_token'' (Opaque []) (- 1),
      Cookie ''refresh_token'' (Opaque []) (- 1)]"

definition falsy :: "token option \<Rightarrow> bool" where
  "falsy x = (case x of None \<Rightarrow> True | Some t \<Rightarrow> \<not> truthy t)"

definition json :: "nat \<Rightarrow> reply \<Rightarrow> response" where
  "json st b = \<lparr>status = st, body = b, set_cookie = []\<rparr>"

definition json_cookies :: "nat \<Rightarrow> reply \<Rightarrow> cookie list \<Rightarrow> response" where
  "json_cookies st b cs = \<lparr>status = st, body = b, set_cookie = cs\<rparr>"

section \<open>The handlers\<close>

text \<open>
  A handler runs at one reading \<open>now\<close> of the clock, on the collection as it
  finds it, and returns the collection as it leaves it and the response. The
  database calls of the model do not fail, so the handlers' \<^verbatim>\<open>catch\<close> branches
  (the 500 responses, and the 400 of a registration the schema refuses) have no
  counterpart here.
\<close>

subsection \<open>POST /api/auth/refresh\<close>

definition rotation :: "string option \<Rightarrow> millis \<Rightarrow> user \<Rightarrow> nat \<Rightarrow> refresh_entry list" where
  "rotation env now u tokenIndex =
     (let spliced = splice1 tokenIndex (refreshTokens u);
          pushed = push spliced \<lparr>token = generateRefreshToken env now u, createdAt = now\<rparr>
      in if length pushed > 10 then shift pushed else pushed)"

definition refresh_handler :: "string option \<Rightarrow> millis \<Rightarrow> db \<Rightarrow> request \<Rightarrow> db \<times> response" where
  "refresh_handler env now d req =
     (if req_method req \<noteq> ''POST'' then (d, json 405 NoBody)
      else if falsy (refresh_token req) then (d, json 401 (Error ''No refresh token''))
      else
        let refreshToken = the (refresh_token req) in
        case verifyRefreshToken env now refreshToken of
          None \<Rightarrow> (d, json_cookies 401 (Error ''Invalid refresh token'') clearAuthCookies)
        | Some pl \<Rightarrow>
            (case findById (userId (claims pl)) d of
               None \<Rightarrow> (d, json_cookies 401 (Error ''User not found'') clearAuthCookies)
             | Some u \<Rightarrow>
                 (case findIndex (\<lambda>t. token t = refreshToken) (refreshTokens u) of
                    None \<Rightarrow>
                      (save (u\<lparr>refreshTokens := []\<rparr>) d,
                       json_cookies 403 (Error ''Refresh token reuse detected'')
                         clearAuthCookies)
                  | Some tokenIndex \<Rightarrow>
                      (save (u\<lparr>refreshTokens := rotation env now u tokenIndex\<rparr>) d,
                       json_cookies 200 (OkToken (generateAccessToken env now u))
                         (setAuthCookies (generateAccessToken env now u)
                            (generateRefreshToken env now u))))))"

subsection \<open>The refresh handler between its awaits\<close>

text \<open>
  The handler awaits the database twice, at \<^verbatim>\<open>User.findById\<close> and at
  \<^verbatim>\<open>user.save()\<close>; between the two it works on the document it has read.
  \<open>refresh_read\<close> is the handler up to the document, \<open>refresh_update\<close> what it
  does to the document and the response it will send once the save has
  returned. Several calls in progress share the collection: a call has started,
  or holds a document, or has sent its response, or has thrown because its save
  was refused. What \<^verbatim>\<open>user.save()\<close> does when the stored document has changed
  since it was read is mongoose's business; it is the parameter \<open>store\<close>, which
  returns the new collection or refuses. A schedule names, step by step, the
  call that runs next and the reading of the clock.
\<close>

definition refresh_read :: "string option \<Rightarrow> millis \<Rightarrow> db \<Rightarrow> request \<Rightarrow> response + user" where
  "refresh_read env now d req =
     (if req_method req \<noteq> ''POST'' then Inl (json 405 NoBody)
      else if falsy (refresh_token req) then Inl (json 401 (Error ''No refresh token''))
      else
        case verifyRefreshToken env now (the (refresh_token req)) of
          None \<Rightarrow> Inl (json_cookies 401 (Error ''Invalid refresh token'') clearAuthCookies)
        | Some pl \<Rightarrow>
            (case findById (userId (claims pl)) d of
               None \<Rightarrow> Inl (json_cookies 401 (Error ''User not found'') clearAuthCookies)
             | Some u \<Rightarrow> Inr u))"

definition refresh_update :: "string option \<Rightarrow> millis \<Rightarrow> request \<Rightarrow> user \<Rightarrow> user \<times> response" where
  "refresh_update env now req u =
     (case findIndex (\<lambda>t. token t = the (refresh_token req)) (refreshTokens u) of
        None \<Rightarrow>
          (u\<lparr>refreshTokens := []\<rparr>,
           json_cookies 403 (Error ''Refresh token reuse detected'') clearAuthCookies)
      | Some tokenIndex \<Rightarrow>
          (u\<lparr>refreshTokens := rotation env now u tokenIndex\<rparr>,
           json_cookies 200 (OkToken (generateAccessToken env now u))
             (setAuthCookies (generateAccessToken env now u)
                (generateRefreshToken env now u))))"

datatype progress = Started | Holding user | Sent response | Threw

record call =
  call_req :: request
  call_at :: progress

definition advance ::
  "(user \<Rightarrow> db \<Rightarrow> db option) \<Rightarrow> string option \<Rightarrow> millis \<Rightarrow> db \<Rightarrow> call \<Rightarrow> db \<times> call" where
  "advance store env now d c =
     (case call_at c of
        Started \<Rightarrow>
          (case refresh_read env now d (call_req c) of
             Inl res \<Rightarrow> (d, c\<lparr>call_at := Sent res\<rparr>)
           | Inr u \<Rightarrow> (d, c\<lparr>call_at := Holding u\<rparr>))
      | Holding u \<Rightarrow>
          (let (u', res) = refresh_update env now (call_req c) u in
           case store u' d of
             None \<Rightarrow> (d, c\<lparr>call_at := Threw\<rparr>)
           | Some d' \<Rightarrow> (d', c\<lparr>call_at := Sent res\<rparr>))
      | Sent res \<Rightarrow> (d, c)
      | Threw \<Rightarrow> (d, c))"

fun interleave ::
  "(user \<Rightarrow> db \<Rightarrow> db option) \<Rightarrow> string option \<Rightarrow> db \<Rightarrow> call list \<Rightarrow> (nat \<times> millis) list
     \<Rightarrow> db \<times> call list" where
  "interleave store env d cs [] = (d, cs)"
| "interleave store env d cs ((i, now) # sched) =
     (if i < length cs
      then let (d', c') = advance store env now d (cs ! i)
           in interleave store env d' (cs[i := c']) sched
      else interleave store env d cs sched)"

definition overwrite :: "user \<Rightarrow> db \<Rightarrow> db option" where
  "overwrite u d = Some (save u d)"

definition sent_status :: "call \<Rightarrow> nat option" where
  "sent_status c = (case call_at c of Sent res \<Rightarrow> Some (status res) | _ \<Rightarrow> None)"

subsection \<open>POST /api/auth/login and POST /api/auth/register\<close>

text \<open>
  The validation of the body (utils/validation.js) and the password hashing
  (bcryptjs) do not touch the tokens; they are parameters of the handlers:
  \<open>validateLogin\<close> returns the sanitized email and password of a valid body,
  \<open>validateRegistration\<close> name, email and password.
\<close>

definition issue :: "string option \<Rightarrow> millis \<Rightarrow> user \<Rightarrow> user" where
  "issue env now u =
     u\<lparr>refreshTokens :=
         push (refreshTokens u) \<lparr>token = generateRefreshToken env now u, createdAt = now\<rparr>\<rparr>"

definition login_handler ::
  "(credentials \<Rightarrow> (string \<times> string) option) \<Rightarrow> (string \<Rightarrow> string \<Rightarrow> bool) \<Rightarrow>
   string option \<Rightarrow> millis \<Rightarrow> db \<Rightarrow> request \<Rightarrow> db \<times> response" where
  "login_handler validateLogin compare env now d req =
     (if req_method req \<noteq> ''POST'' then (d, json 405 (Error ''Method not allowed''))
      else case validateLogin (req_body req) of
          None \<Rightarrow> (d, json 400 (Error ''Validation failed''))
        | Some (em, password) \<Rightarrow>
            (case findOne (\<lambda>u. email u = em) d of
               None \<Rightarrow> (d, json 401 (Error ''Invalid email or password''))
             | Some u \<Rightarrow>
                 if \<not> compare password (passwordHash u)
                 then (d, json 401 (Error ''Invalid email or password''))
                 else
                   (save (issue env now u) d,
                    json_cookies 200 (UserToken (summary u) (generateAccessToken env now u))
                      (setAuthCookies (generateAccessToken env now u)
                         (generateRefreshToken env now u)))))"

definition register_handler ::
  "(credentials \<Rightarrow> (string \<times> string \<times> string) option) \<Rightarrow> (string \<Rightarrow> string) \<Rightarrow>
   string option \<Rightarrow> millis \<Rightarrow> db \<Rightarrow> request \<Rightarrow> db \<times> response" where
  "register_handler validateRegistration hash env now d req =
     (if req_method req \<noteq> ''POST'' then (d, json 405 (Error ''Method not allowed''))
      else case validateRegistration (req_body req) of
          None \<Rightarrow> (d, json 400 (Error ''Validation failed''))
        | Some (n, em, password) \<Rightarrow>
            (case findOne (\<lambda>u. email u = em) d of
               Some u \<Rightarrow> (d, json 400 (Error ''User with this email already exists''))
             | None \<Rightarrow>
                 let (u, d') = create n em (hash password) d in
                   (save (issue env now u) d',
                    json_cookies 200 (OkUserToken (summary u) (generateAccessToken env now u))
                      (setAuthCookies (generateAccessToken env now u)
                         (generateRefreshToken env now u)))))"

subsection \<open>POST /api/auth/logout\<close>

definition logout_handler :: "db \<Rightarrow> request \<Rightarrow> db \<times> response" where
  "logout_handler d req =
     (if req_method req \<noteq> ''POST'' then (d, json 405 NoBody)
      else
        ((if falsy (refresh_token req) then d
          else
            let refreshToken = the (refresh_token req) in
            case findOne (\<lambda>u. refreshToken \<in> set (map token (refreshTokens u))) d of
              None \<Rightarrow> d
            | Some u \<Rightarrow>
                save (u\<lparr>refreshTokens :=
                        filter (\<lambda>t. token t \<noteq> refreshToken) (refreshTokens u)\<rparr>) d),
         json_cookies 200 Ok clearAuthCookies))"

subsection \<open>GET /api/auth/me, and getUserFromReq with GET /api/user/me\<close>

definition me_handler :: "string option \<Rightarrow> millis \<Rightarrow> db \<Rightarrow> request \<Rightarrow> db \<times> response" where
  "me_handler env now d req =
     (if req_method req \<noteq> ''GET'' then (d, json 405 NoBody)
      else if falsy (access_token req) then (d, json 401 (Error ''Not authenticated''))
      else
        case verifyAccessToken env now (the (access_token req)) of
          None \<Rightarrow> (d, json 401 (Error ''Invalid access token''))
        | Some pl \<Rightarrow>
            (case findById (userId (claims pl)) d of
               None \<Rightarrow> (d, json 401 (Error ''User not found''))
             | Some u \<Rightarrow> (d, json 200 (UserDoc (summary u)))))"

definition bearer :: "request \<Rightarrow> token option" where
  "bearer req =
     (case authorization req of
        None \<Rightarrow> None
      | Some parts \<Rightarrow>
          if length parts = 2 \<and> parts ! 0 = Opaque ''Bearer'' then Some (parts ! 1) else None)"

definition getUserFromReq :: "string option \<Rightarrow> millis \<Rightarrow> db \<Rightarrow> request \<Rightarrow> user option" where
  "getUserFromReq env now d req =
     (let tok = (if falsy (bearer req) then access_token req else bearer req) in
      if falsy tok then None
      else
        case verifyAccessToken env now (the tok) of
          None \<Rightarrow> None
        | Some pl \<Rightarrow> findById (userId (claims pl)) d)"

definition user_me_handler :: "string option \<Rightarrow> millis \<Rightarrow> db \<Rightarrow> request \<Rightarrow> db \<times> response" where
  "user_me_handler env now d req =
     (if req_method req \<noteq> ''GET'' then (d, json 405 NoBody)
      else case getUserFromReq env now d req of
          None \<Rightarrow> (d, json 401 (Error ''unauth''))
        | Some u \<Rightarrow> (d, json 200 (UserDoc (summary u))))"

subsection \<open>The routes together\<close>

text \<open>
  What the handlers take from outside the token code, and the dispatch of a
  request to its handler. A run serves timed requests one after the other, each
  to completion, and collects the responses.
\<close>

record server =
  validateLogin :: "credentials \<Rightarrow> (string \<times> string) option"
  validateRegistration :: "credentials \<Rightarrow> (string \<times> string \<times> string) option"
  bcrypt_compare :: "string \<Rightarrow> string \<Rightarrow> bool"
  bcrypt_hash :: "string \<Rightarrow> string"
  env_JWT_SECRET :: "string option"

datatype route = AuthLogin | AuthRegister | AuthRefresh | AuthLogout | AuthMe | UserMe

fun api :: "server \<Rightarrow> route \<Rightarrow> millis \<Rightarrow> db \<Rightarrow> request \<Rightarrow> db \<times> response" where
  "api cfg AuthLogin now d req =
     login_handler (validateLogin cfg) (bcrypt_compare cfg) (env_JWT_SECRET cfg) now d req"
| "api cfg AuthRegister now d req =
     register_handler (validateRegistration cfg) (bcrypt_hash cfg) (env_JWT_SECRET cfg) now d req"
| "api cfg AuthRefresh now d req = refresh_handler (env_JWT_SECRET cfg) now d req"
| "api cfg AuthLogout now d req = logout_handler d req"
| "api cfg AuthMe now d req = me_handler (env_JWT_SECRET cfg) now d req"
| "api cfg UserMe now d req = user_me_handler (env_JWT_SECRET cfg) now d req"

fun run :: "server \<Rightarrow> db \<Rightarrow> (route \<times> millis \<times> request) list \<Rightarrow> db \<times> response list" where
  "run cfg d [] = (d, [])"
| "run cfg d ((r, now, req) # evs) =
     (let (d1, res) = api cfg r now d req;
          (d2, ress) = run cfg d1 evs
      in (d2, res # ress))"

text \<open>The ledger of an identity: the token values of its document, oldest first.\<close>

definition ledger :: "user_id \<Rightarrow> db \<Rightarrow> token list option" where
  "ledger i d = map_option (\<lambda>u. map token (refreshTokens u)) (findById i d)"

text \<open>The invariant of a redeemed token: the documents have distinct ids, and the
  identity's document does not hold the token.\<close>

definition absent :: "token \<Rightarrow> user_id \<Rightarrow> db \<Rightarrow> bool" where
  "absent t i d =
     (distinct (map user_id d) \<and>
      (\<exists>u. findById i d = Some u \<and> t \<notin> set (map token (refreshTokens u))))"

section \<open>The client refresh coordinator (context/AuthContext.jsx)\<close>

text \<open>
  The two axios interceptors are installed once (effects with no dependencies),
  so the closure of the response interceptor holds one \<^verbatim>\<open>isRefreshing\<close> and one
  \<^verbatim>\<open>refreshSubscribers\<close> for as long as it is installed. JavaScript runs the
  interceptor from its entry to its first \<^verbatim>\<open>await\<close>, and from the settling of
  the awaited refresh to its return, without interruption; these are the steps
  of the model. A step returns the coordinator's variables and, in order, what
  it has done: the axios calls it has made, the token it has saved, the leave
  to the login page.

  Of an axios request the model keeps the url, the method as it is sent, the
  \<^verbatim>\<open>Authorization\<close> header (split at its spaces, as the server will read it) and
  the \<^verbatim>\<open>_retry\<close> mark. Every call has a caller that its result settles: a page,
  or the interceptor suspended at \<^verbatim>\<open>await axios.post('/api/auth/refresh')\<close> on
  behalf of an original request and of that request's caller. A queued
  continuation \<^verbatim>\<open>() => resolve(axios(originalRequest))\<close> is the request it will
  replay and the caller its \<^verbatim>\<open>resolve\<close> settles.
\<close>

record axios_config =
  url :: string
  verb :: string
  Authorization :: "token list option"
  retry :: bool

record axios_error =
  config :: axios_config
  response_status :: "nat option"

datatype waiter = Page | Refresher axios_config waiter

datatype effect =
  Axios axios_config waiter
| SaveToken token
| SetUserNull
| RouterPush string

datatype outcome = Suspended | Queued | Rejected

record coordinator =
  isRefreshing :: bool
  refreshSubscribers :: "(axios_config \<times> waiter) list"

text \<open>The request interceptor: the token is the one \<^verbatim>\<open>localStorage\<close> holds when the
  call is made, and the header is set only on a request that does not have one.\<close>

definition request_interceptor :: "token option \<Rightarrow> axios_config \<Rightarrow> axios_config" where
  "request_interceptor currentToken cfg =
     (if \<not> falsy currentToken \<and> Authorization cfg = None
      then cfg\<lparr>Authorization := Some [Opaque ''Bearer'', the currentToken]\<rparr>
      else cfg)"

definition refresh_call :: axios_config where
  "refresh_call =
     \<lparr>url = ''/api/auth/refresh'', verb = ''POST'', Authorization = None, retry = False\<rparr>"

definition subscribeTokenRefresh ::
  "axios_config \<times> waiter \<Rightarrow> coordinator \<Rightarrow> coordinator" where
  "subscribeTokenRefresh cb c = c\<lparr>refreshSubscribers := refreshSubscribers c @ [cb]\<rparr>"

definition onRefreshed :: "coordinator \<Rightarrow> coordinator \<times> effect list" where
  "onRefreshed c =
     (c\<lparr>refreshSubscribers := []\<rparr>, map (\<lambda>(cfg, w). Axios cfg w) (refreshSubscribers c))"

text \<open>The response interceptor's handler of a rejection, up to its first \<^verbatim>\<open>await\<close>;
  \<open>w\<close> is the caller of the rejected call.\<close>

definition on_rejected ::
  "coordinator \<Rightarrow> axios_error \<Rightarrow> waiter \<Rightarrow> coordinator \<times> effect list \<times> outcome" where
  "on_rejected c err w =
     (let originalRequest = config err in
      if response_status err = Some 401 \<and> \<not> retry originalRequest then
        if isRefreshing c then (subscribeTokenRefresh (originalRequest, w) c, [], Queued)
        else (c\<lparr>isRefreshing := True\<rparr>,
              [Axios refresh_call (Refresher (originalRequest\<lparr>retry := True\<rparr>) w)],
              Suspended)
      else (c, [], Rejected))"

text \<open>The handler after the \<^verbatim>\<open>await\<close>: the \<^verbatim>\<open>try\<close> branch when the refresh call is
  fulfilled with \<^verbatim>\<open>refreshRes.data.token\<close>, the \<^verbatim>\<open>catch\<close> branch when it is
  rejected.\<close>

definition refresh_fulfilled ::
  "coordinator \<Rightarrow> axios_config \<Rightarrow> waiter \<Rightarrow> token option \<Rightarrow> coordinator \<times> effect list" where
  "refresh_fulfilled c originalRequest w data_token =
     (let saved = (if falsy data_token then [] else [SaveToken (the data_token)]);
          (c', replayed) = onRefreshed (c\<lparr>isRefreshing := False\<rparr>)
      in (c', saved @ replayed @ [Axios originalRequest w]))"

definition refresh_failed :: "coordinator \<Rightarrow> coordinator \<times> effect list" where
  "refresh_failed c =
     (c\<lparr>isRefreshing := False, refreshSubscribers := []\<rparr>, [SetUserNull, RouterPush ''/login''])"

subsection \<open>The browser between the coordinator and the server\<close>

text \<open>
  The browser holds the coordinator, the \<^verbatim>\<open>access_token\<close> of \<^verbatim>\<open>localStorage\<close>, the
  two cookies, the calls that are on their way with their callers, and three
  records of what has happened: the requests sent, the results the pages have
  received (request and status), and the leaves to the login page. It keeps a
  cookie until a \<^verbatim>\<open>Set-Cookie\<close> replaces it or expires it. An axios call passes
  the request interceptor and is sent; a response with a status from 200 to
  299 fulfils the call, any other rejects it through the response interceptor.
\<close>

record browser =
  coord :: coordinator
  local_access_token :: "token option"
  jar_access_token :: "token option"
  jar_refresh_token :: "token option"
  in_flight :: "(axios_config \<times> waiter) list"
  sent :: "axios_config list"
  settled :: "(axios_config \<times> nat) list"
  left :: "effect list"

fun perform :: "effect \<Rightarrow> browser \<Rightarrow> browser" where
  "perform (Axios cfg w) b =
     (let cfg' = request_interceptor (local_access_token b) cfg
      in b\<lparr>in_flight := in_flight b @ [(cfg', w)], sent := sent b @ [cfg']\<rparr>)"
| "perform (SaveToken t) b = b\<lparr>local_access_token := Some t\<rparr>"
| "perform SetUserNull b = b\<lparr>left := left b @ [SetUserNull]\<rparr>"
| "perform (RouterPush p) b = b\<lparr>left := left b @ [RouterPush p]\<rparr>"

definition data_token :: "response \<Rightarrow> token option" where
  "data_token res = (case body res of OkToken t \<Rightarrow> Some t | _ \<Rightarrow> None)"

fun fulfil :: "waiter \<Rightarrow> axios_config \<Rightarrow> response \<Rightarrow> browser \<Rightarrow> browser" where
  "fulfil Page cfg res b = b\<lparr>settled := settled b @ [(cfg, status res)]\<rparr>"
| "fulfil (Refresher originalRequest w) cfg res b =
     (let (c', fx) = refresh_fulfilled (coord b) originalRequest w (data_token res)
      in fold perform fx (b\<lparr>coord := c'\<rparr>))"

fun reject :: "waiter \<Rightarrow> axios_config \<Rightarrow> nat \<Rightarrow> browser \<Rightarrow> browser" where
  "reject Page cfg st b = b\<lparr>settled := settled b @ [(cfg, st)]\<rparr>"
| "reject (Refresher originalRequest w) cfg st b =
     (let (c', fx) = refresh_failed (coord b)
      in reject w originalRequest st (fold perform fx (b\<lparr>coord := c'\<rparr>)))"

definition on_response :: "browser \<Rightarrow> axios_config \<Rightarrow> waiter \<Rightarrow> response \<Rightarrow> browser" where
  "on_response b cfg w res =
     (if 200 \<le> status res \<and> status res < 300 then fulfil w cfg res b
      else
        let (c', fx, out) =
              on_rejected (coord b) \<lparr>config = cfg, response_status = Some (status res)\<rparr> w;
            b' = fold perform fx (b\<lparr>coord := c'\<rparr>)
        in case out of Rejected \<Rightarrow> reject w cfg (status res) b' | _ \<Rightarrow> b')"

fun store_cookie :: "cookie \<Rightarrow> browser \<Rightarrow> browser" where
  "store_cookie (Cookie n v maxAge) b =
     (if n = ''access_token''
      then b\<lparr>jar_access_token := (if 0 < maxAge then Some v else None)\<rparr>
      else if n = ''refresh_token''
      then b\<lparr>jar_refresh_token := (if 0 < maxAge then Some v else None)\<rparr>
      else b)"

text \<open>The request as the server receives it, and the route the pages directory gives
  its url.\<close>

definition wire :: "browser \<Rightarrow> axios_config \<Rightarrow> request" where
  "wire b cfg =
     \<lparr>req_method = verb cfg, authorization = Authorization cfg,
      access_token = jar_access_token b, refresh_token = jar_refresh_token b,
      req_body = \<lparr>cred_name = None, cred_email = None, cred_password = None\<rparr>\<rparr>"

definition route_of :: "string \<Rightarrow> route option" where
  "route_of u =
     (if u = ''/api/auth/login'' then Some AuthLogin
      else if u = ''/api/auth/register'' then Some AuthRegister
      else if u = ''/api/auth/refresh'' then Some AuthRefresh
      else if u = ''/api/auth/logout'' then Some AuthLogout
      else if u = ''/api/auth/me'' then Some AuthMe
      else if u = ''/api/user/me'' then Some UserMe
      else None)"

text \<open>
  The server answers the calls on their way in the order they were made, one
  at each of the given readings of the clock; the browser stores the cookies of
  the answer and settles the call.
\<close>

fun exchange :: "server \<Rightarrow> db \<Rightarrow> browser \<Rightarrow> millis list \<Rightarrow> db \<times> browser" where
  "exchange cfg d b [] = (d, b)"
| "exchange cfg d b (now # nows) =
     (case in_flight b of
        [] \<Rightarrow> (d, b)
      | (c, w) # rest \<Rightarrow>
          (let (d', res) = (case route_of (url c) of
                              None \<Rightarrow> (d, json 404 NoBody)
                            | Some r \<Rightarrow> api cfg r now d (wire b c));
               b1 = fold store_cookie (set_cookie res) (b\<lparr>in_flight := rest\<rparr>)
           in exchange cfg d' (on_response b1 c w res) nows))"

section \<open>Example data\<close>

definition ann :: user where
  "ann = \<lparr>user_id = 1, name = ''Ann'', email = ''ann@example.org'', passwordHash = ''$2a$10$ann'',
          isAdmin = False, refreshTokens = []\<rparr>"

definition bob :: user where
  "bob = \<lparr>user_id = 2, name = ''Bob'', email = ''bob@example.org'', passwordHash = ''$2a$10$bob'',
          isAdmin = False, refreshTokens = []\<rparr>"

definition no_body :: credentials where
  "no_body = \<lparr>cred_name = None, cred_email = None, cred_password = None\<rparr>"

definition post_with :: "token option \<Rightarrow> request" where
  "post_with rt = \<lparr>req_method = ''POST'', authorization = None, access_token = None,
                   refresh_token = rt, req_body = no_body\<rparr>"

definition login_as :: "string \<Rightarrow> string \<Rightarrow> request" where
  "login_as e p = \<lparr>req_method = ''POST'', authorization = None, access_token = None,
                   refresh_token = None,
                   req_body = \<lparr>cred_name = None, cred_email = Some e, cred_password = Some p\<rparr>\<rparr>"

definition get_bearer :: "token \<Rightarrow> request" where
  "get_bearer t = \<lparr>req_method = ''GET'', authorization = Some [Opaque ''Bearer'', t],
                   access_token = None, refresh_token = None, req_body = no_body\<rparr>"

definition get_cookie :: "token \<Rightarrow> request" where
  "get_cookie t = \<lparr>req_method = ''GET'', authorization = None,
                   access_token = Some t, refresh_token = None, req_body = no_body\<rparr>"

text \<open>A page's call to a protected route, with the bearer token the page holds, and a
  browser in which three such calls are on their way: the token is also the
  one of \<^verbatim>\<open>localStorage\<close>, the access cookie is gone, the refresh cookie is as
  given.\<close>

definition page_call :: "token option \<Rightarrow> axios_config" where
  "page_call t =
     \<lparr>url = ''/api/user/me'', verb = ''GET'',
      Authorization = map_option (\<lambda>t. [Opaque ''Bearer'', t]) t, retry = False\<rparr>"

definition three_calls :: "token option \<Rightarrow> token option \<Rightarrow> browser" where
  "three_calls held rt =
     \<lparr>coord = \<lparr>isRefreshing = False, refreshSubscribers = []\<rparr>,
      local_access_token = held, jar_access_token = None, jar_refresh_token = rt,
      in_flight = [(page_call held, Page), (page_call held, Page), (page_call held, Page)],
      sent = [page_call held, page_call held, page_call held], settled = [], left = []\<rparr>"

text \<open>A user with one ledger entry for each of the given login instants.\<close>

definition sessions :: "user \<Rightarrow> millis list \<Rightarrow> user" where
  "sessions u ats =
     u\<lparr>refreshTokens := map (\<lambda>at. \<lparr>token = generateRefreshToken None at u, createdAt = at\<rparr>) ats\<rparr>"

definition test_server :: server where
  "test_server =
     \<lparr>validateLogin = (\<lambda>b. case cred_email b of None \<Rightarrow> None
          | Some e \<Rightarrow> (case cred_password b of None \<Rightarrow> None | Some p \<Rightarrow> Some (e, p))),
      validateRegistration = (\<lambda>b. None),
      bcrypt_compare = (\<lambda>p h. True),
      bcrypt_hash = (\<lambda>p. p),
      env_JWT_SECRET = None\<rparr>"

section \<open>Facts about the collection, the ledger operations and the handlers\<close>

lemmas codec_defs = generateAccessToken_def generateRefreshToken_def verifyAccessToken_def
  verifyRefreshToken_def jwt_sign_def clock_def JWT_SECRET_def ACCESS_TOKEN_EXPIRY_def
  REFRESH_TOKEN_EXPIRY_def

lemmas handler_defs = refresh_handler_def login_handler_def logout_handler_def me_handler_def
  user_me_handler_def getUserFromReq_def bearer_def falsy_def json_def json_cookies_def
  findById_def findOne_def rotation_def issue_def push_def shift_def splice1_def summary_def
  setAuthCookies_def clearAuthCookies_def ledger_def

lemmas example_defs = ann_def bob_def no_body_def post_with_def login_as_def get_bearer_def
  get_cookie_def test_server_def sessions_def

lemmas client_defs = request_interceptor_def refresh_call_def subscribeTokenRefresh_def
  onRefreshed_def on_rejected_def refresh_fulfilled_def refresh_failed_def data_token_def
  on_response_def wire_def route_of_def page_call_def three_calls_def

lemma findById_user_id: "findById i d = Some u \<Longrightarrow> user_id u = i"
  by (induction d) (auto simp: findById_def split: if_splits)

lemma findById_in_set: "findById i d = Some u \<Longrightarrow> u \<in> set d"
  by (induction d) (auto simp: findById_def split: if_splits)

lemma findById_exists: "u \<in> set d \<Longrightarrow> \<exists>v. findById (user_id u) d = Some v"
  by (induction d) (auto simp: findById_def)

lemma findById_distinct:
  "distinct (map user_id d) \<Longrightarrow> u \<in> set d \<Longrightarrow> findById (user_id u) d = Some u"
  by (induction d) (auto simp: findById_def)

lemma findOne_in_set: "findOne P d = Some u \<Longrightarrow> u \<in> set d \<and> P u"
  by (induction d) (auto simp: findOne_def split: if_splits)

lemma findOne_None: "(findOne P d = None) = (\<forall>u \<in> set d. \<not> P u)"
  by (induction d) (auto simp: findOne_def)

lemma findById_save:
  "findById i (save u d) =
     (if user_id u = i then (case findById i d of None \<Rightarrow> None | Some v \<Rightarrow> Some u)
      else findById i d)"
  by (induction d) (auto simp: findById_def)

lemma map_user_id_save: "map user_id (save u d) = map user_id d"
  by (induction d) auto

lemma findIndex_None: "(findIndex P xs = None) = (\<forall>x \<in> set xs. \<not> P x)"
  by (induction xs) auto

lemma set_splice1: "set (splice1 i xs) \<subseteq> set xs"
  using set_take_subset [of i xs] set_drop_subset [of "Suc i" xs]
  by (auto simp: splice1_def)

lemma set_shift: "set (shift xs) \<subseteq> set xs"
  by (cases xs) (auto simp: shift_def)

lemma set_rotation:
  "set (map token (rotation env now u i))
     \<subseteq> insert (generateRefreshToken env now u) (set (map token (splice1 i (refreshTokens u))))"
proof -
  let ?pushed = "push (splice1 i (refreshTokens u))
                   \<lparr>token = generateRefreshToken env now u, createdAt = now\<rparr>"
  have "set (rotation env now u i) \<subseteq> set ?pushed"
    using set_shift [of ?pushed] by (simp add: rotation_def Let_def)
  then have "token ` set (rotation env now u i) \<subseteq> token ` set ?pushed"
    by (rule image_mono)
  then show ?thesis by (auto simp: push_def)
qed

lemma splice1_removes_single:
  "findIndex (\<lambda>e. token e = t) xs = Some i \<Longrightarrow> count_list (map token xs) t = 1
     \<Longrightarrow> t \<notin> set (map token (splice1 i xs))"
proof (induction xs arbitrary: i)
  case Nil
  then show ?case by simp
next
  case (Cons x xs)
  show ?case
  proof (cases "token x = t")
    case True
    with Cons.prems have "i = 0" and "count_list (map token xs) t = 0" by auto
    then show ?thesis by (simp add: splice1_def count_list_0_iff)
  next
    case False
    with Cons.prems obtain j where j: "findIndex (\<lambda>e. token e = t) xs = Some j" "i = Suc j"
      by auto
    from False Cons.prems have "count_list (map token xs) t = 1" by simp
    from Cons.IH [OF j(1) this] False show ?thesis by (simp add: splice1_def j(2))
  qed
qed

lemma absent_save:
  assumes "absent t i d" and "u \<in> set d" and "user_id u' = user_id u"
    and "t \<in> set (map token (refreshTokens u')) \<Longrightarrow> t \<in> set (map token (refreshTokens u))"
  shows "absent t i (save u' d)"
proof -
  from assms(1) obtain v where dist: "distinct (map user_id d)"
    and v: "findById i d = Some v" "t \<notin> set (map token (refreshTokens v))"
    by (auto simp: absent_def)
  have u: "findById (user_id u) d = Some u" using dist assms(2) by (rule findById_distinct)
  show ?thesis
  proof (cases "user_id u = i")
    case True
    with u v have "u = v" by simp
    with v assms(4) have "t \<notin> set (map token (refreshTokens u'))" by blast
    moreover have "findById i (save u' d) = Some u'"
      using True v by (simp add: findById_save assms(3))
    ultimately show ?thesis using dist by (simp add: absent_def map_user_id_save)
  next
    case False
    then have "findById i (save u' d) = Some v"
      using v by (simp add: findById_save assms(3))
    then show ?thesis using dist v by (simp add: absent_def map_user_id_save)
  qed
qed

lemma le_foldr_max: "x \<in> set xs \<Longrightarrow> x \<le> foldr max xs (0::nat)"
  by (induction xs) (auto simp: max_def)

lemma new_id_fresh: "new_id d \<notin> set (map user_id d)"
  using le_foldr_max [of "new_id d" "map user_id d"] by (auto simp: new_id_def)

lemma findById_append:
  "findById i (d @ [u]) = (case findById i d of None \<Rightarrow> (if user_id u = i then Some u else None)
     | Some v \<Rightarrow> Some v)"
  by (induction d) (auto simp: findById_def)

lemma absent_create:
  assumes "absent t i d" and "user_id u \<notin> set (map user_id d)"
  shows "absent t i (d @ [u])"
  using assms by (auto simp: absent_def findById_append)

lemma rotation_tokens:
  assumes "generateRefreshToken env now u \<noteq> t"
    and "t \<in> set (map token (rotation env now u k))"
  shows "t \<in> set (map token (refreshTokens u))"
proof -
  from assms set_rotation [of env now u k]
  have "t \<in> token ` set (splice1 k (refreshTokens u))" by auto
  moreover have "token ` set (splice1 k (refreshTokens u)) \<subseteq> token ` set (refreshTokens u)"
    by (rule image_mono) (rule set_splice1)
  ultimately show ?thesis by auto
qed

lemma absent_refresh:
  assumes "absent t i d" and "\<And>u. generateRefreshToken env now u \<noteq> t"
  shows "absent t i (fst (refresh_handler env now d req))"
proof -
  have "absent t i (save (u\<lparr>refreshTokens := []\<rparr>) d)" if "findById j d = Some u" for u j
    using assms(1) findById_in_set [OF that] by (rule absent_save) simp_all
  moreover have "absent t i (save (u\<lparr>refreshTokens := rotation env now u k\<rparr>) d)"
    if "findById j d = Some u" for u j k
    using assms(1) findById_in_set [OF that]
  proof (rule absent_save)
    show "user_id (u\<lparr>refreshTokens := rotation env now u k\<rparr>) = user_id u" by simp
    show "t \<in> set (map token (refreshTokens (u\<lparr>refreshTokens := rotation env now u k\<rparr>)))
          \<Longrightarrow> t \<in> set (map token (refreshTokens u))"
      using rotation_tokens [OF assms(2), of u k] by simp
  qed
  ultimately show ?thesis
    using assms(1) by (simp add: refresh_handler_def Let_def split: option.splits)
qed

lemma absent_login:
  assumes "absent t i d" and "\<And>u. generateRefreshToken env now u \<noteq> t"
  shows "absent t i (fst (login_handler vl cmp env now d req))"
proof -
  have "absent t i (save (issue env now u) d)" if "findOne P d = Some u" for u P
    using assms(1) conjunct1 [OF findOne_in_set [OF that]]
  proof (rule absent_save)
    show "user_id (issue env now u) = user_id u" by (simp add: issue_def)
    show "t \<in> set (map token (refreshTokens (issue env now u)))
          \<Longrightarrow> t \<in> set (map token (refreshTokens u))"
      using assms(2) [of u] by (auto simp: issue_def push_def)
  qed
  then show ?thesis
    using assms(1) by (simp add: login_handler_def split: option.splits)
qed

lemma absent_register:
  assumes "absent t i d" and "\<And>u. generateRefreshToken env now u \<noteq> t"
  shows "absent t i (fst (register_handler vr h env now d req))"
proof -
  have "absent t i (save (issue env now u) (d @ [u]))"
    if "user_id u = new_id d" and "refreshTokens u = []" for u
  proof (rule absent_save)
    show "absent t i (d @ [u])" using assms(1) that(1) new_id_fresh [of d]
      by (intro absent_create) auto
    show "u \<in> set (d @ [u])" by simp
    show "user_id (issue env now u) = user_id u" by (simp add: issue_def)
    show "t \<in> set (map token (refreshTokens (issue env now u)))
          \<Longrightarrow> t \<in> set (map token (refreshTokens u))"
      using assms(2) [of u] by (auto simp: issue_def push_def that(2))
  qed
  then show ?thesis
    using assms(1)
    by (auto simp: register_handler_def create_def Let_def split: option.splits)
qed

lemma absent_logout: 
  assumes "absent t i d"
  shows "absent t i (fst (logout_handler d req))"
proof -
  have "absent t i (save (u\<lparr>refreshTokens := filter Q (refreshTokens u)\<rparr>) d)"
    if "findOne P d = Some u" for u P Q
    using assms conjunct1 [OF findOne_in_set [OF that]]
    by (rule absent_save) auto
  then show ?thesis
    using assms by (simp add: logout_handler_def Let_def split: option.splits)
qed

lemma absent_api:
  assumes "absent t i d" and "\<And>u. generateRefreshToken (env_JWT_SECRET cfg) now u \<noteq> t"
  shows "absent t i (fst (api cfg r now d req))"
proof (cases r)
  case AuthLogin
  then show ?thesis using assms by (simp add: absent_login)
next
  case AuthRegister
  then show ?thesis using assms by (simp add: absent_register)
next
  case AuthRefresh
  then show ?thesis using assms by (simp add: absent_refresh)
next
  case AuthLogout
  then show ?thesis using assms by (simp add: absent_logout)
next
  case AuthMe
  then show ?thesis using assms(1)
    by (simp add: me_handler_def split: option.splits)
next
  case UserMe
  then show ?thesis using assms(1)
    by (simp add: user_me_handler_def split: option.splits)
qed

lemma fst_run_Cons:
  "fst (run cfg d ((r, now, req) # evs)) = fst (run cfg (fst (api cfg r now d req)) evs)"
  by (simp split: prod.splits)

lemma absent_run:
  assumes "absent t i d"
    and "\<forall>(r, now, req) \<in> set evs. \<forall>u. generateRefreshToken (env_JWT_SECRET cfg) now u \<noteq> t"
  shows "absent t i (fst (run cfg d evs))"
  using assms
proof (induction evs arbitrary: d)
  case Nil
  then show ?case by simp
next
  case (Cons ev evs)
  obtain r now req where ev: "ev = (r, now, req)" by (cases ev) auto
  have "generateRefreshToken (env_JWT_SECRET cfg) now u \<noteq> t" for u
    using Cons.prems(2) by (simp add: ev)
  with Cons.prems(1) have "absent t i (fst (api cfg r now d req))"
    by (rule absent_api)
  then have "absent t i (fst (run cfg (fst (api cfg r now d req)) evs))"
    using Cons.prems(2) by (intro Cons.IH) simp_all
  then show ?case unfolding ev fst_run_Cons .
qed


lemma verify_Some:
  "verifyRefreshToken env now t = Some pl
     \<Longrightarrow> t = Signed (JWT_SECRET env) pl \<and> clock now < exp pl"
  by (cases t) (auto simp: verifyRefreshToken_def split: if_splits)

lemma generated_later:
  "iat pl < clock now \<Longrightarrow> generateRefreshToken env now u \<noteq> Signed k pl"
  by (cases pl) (auto simp: generateRefreshToken_def jwt_sign_def)

lemma findIndex_present:
  "t \<in> set (map token xs) \<Longrightarrow> \<exists>i. findIndex (\<lambda>e. token e = t) xs = Some i"
  using findIndex_None [of "\<lambda>e. token e = t" xs] by (cases "findIndex (\<lambda>e. token e = t) xs") auto

lemma refresh_rotates:
  assumes "req_method req = ''POST''" and "refresh_token req = Some t"
    and "verifyRefreshToken env now t = Some pl"
    and "findById (userId (claims pl)) d = Some u"
    and "findIndex (\<lambda>e. token e = t) (refreshTokens u) = Some i"
  shows "refresh_handler env now d req =
           (save (u\<lparr>refreshTokens := rotation env now u i\<rparr>) d,
            json_cookies 200 (OkToken (generateAccessToken env now u))
              (setAuthCookies (generateAccessToken env now u) (generateRefreshToken env now u)))"
  using assms verify_Some [OF assms(3)] by (simp add: refresh_handler_def falsy_def)

lemma refresh_reuse:
  assumes "req_method req = ''POST''" and "refresh_token req = Some t"
    and "verifyRefreshToken env now t = Some pl"
    and "findById (userId (claims pl)) d = Some u"
    and "t \<notin> set (map token (refreshTokens u))"
  shows "refresh_handler env now d req =
           (save (u\<lparr>refreshTokens := []\<rparr>) d,
            json_cookies 403 (Error ''Refresh token reuse detected'') clearAuthCookies)"
proof -
  have "findIndex (\<lambda>e. token e = t) (refreshTokens u) = None"
    using assms(5) by (auto simp: findIndex_None)
  then show ?thesis
    using assms verify_Some [OF assms(3)] by (simp add: refresh_handler_def falsy_def)
qed

lemma refresh_invalid:
  assumes "req_method req = ''POST''" and "refresh_token req = Some t" and "truthy t"
    and "verifyRefreshToken env now t = None"
  shows "refresh_handler env now d req =
           (d, json_cookies 401 (Error ''Invalid refresh token'') clearAuthCookies)"
  using assms by (simp add: refresh_handler_def falsy_def)

lemma refresh_handler_steps:
  "refresh_handler env now d req =
     (case refresh_read env now d req of
        Inl res \<Rightarrow> (d, res)
      | Inr u \<Rightarrow> (save (fst (refresh_update env now req u)) d,
                  snd (refresh_update env now req u)))"
  by (simp add: refresh_handler_def refresh_read_def refresh_update_def Let_def
      split: option.splits)

lemma refresh_handler_interleave:
  "interleave overwrite env d [\<lparr>call_req = req, call_at = Started\<rparr>] [(0, now), (0, now)]
     = (fst (refresh_handler env now d req),
        [\<lparr>call_req = req, call_at = Sent (snd (refresh_handler env now d req))\<rparr>])"
  by (simp add: refresh_handler_steps advance_def overwrite_def split: sum.splits prod.splits)

lemma verify_None_iff:
  "(verifyRefreshToken env now t = None) =
     (case t of Opaque s \<Rightarrow> True
      | Signed k p \<Rightarrow> k \<noteq> JWT_SECRET env \<or> exp p \<le> clock now)"
  by (cases t) (auto simp: verifyRefreshToken_def)

lemma last_rotation:
  "rotation env now u i \<noteq> [] \<and>
   token (last (rotation env now u i)) = generateRefreshToken env now u"
proof (cases "splice1 i (refreshTokens u)")
  case Nil
  then show ?thesis by (simp add: rotation_def push_def shift_def)
next
  case (Cons x xs)
  then show ?thesis by (simp add: rotation_def push_def shift_def Let_def)
qed

lemma refresh_200:
  assumes "refresh_handler env now d req = (d', res)" and "status res = 200"
  shows "\<exists>t pl u i. refresh_token req = Some t \<and> truthy t
           \<and> verifyRefreshToken env now t = Some pl
           \<and> findById (userId (claims pl)) d = Some u
           \<and> findIndex (\<lambda>e. token e = t) (refreshTokens u) = Some i
           \<and> d' = save (u\<lparr>refreshTokens := rotation env now u i\<rparr>) d
           \<and> res = json_cookies 200 (OkToken (generateAccessToken env now u))
                 (setAuthCookies (generateAccessToken env now u)
                    (generateRefreshToken env now u))"
  using assms
  by (auto simp: refresh_handler_def json_def json_cookies_def Let_def falsy_def
      split: if_splits option.splits)

section \<open>Single use of a refresh token\<close>

text \<open>
  C1, as the claim states it, fails: a second redemption is not answered 403
  "at any later time". The handler verifies the signature and the expiry before
  it looks at the ledger, so a replay after the token's seven days is answered
  401 and no ledger is touched. Ann logs in at second 1, redeems her token at
  second 5 and replays it at second 604801: the statuses are 200, 200 and 401,
  and her ledger still holds the token of the rotation.
\<close>

theorem expired_replay_is_401:
  "map status (snd (run test_server [ann]
     [(AuthLogin, 1000, login_as ''ann@example.org'' ''pw''),
      (AuthRefresh, 5000, post_with (Some (generateRefreshToken None 1000 ann))),
      (AuthRefresh, 604801000, post_with (Some (generateRefreshToken None 1000 ann)))]))
     = [200, 200, 401]
   \<and> ledger 1 (fst (run test_server [ann]
     [(AuthLogin, 1000, login_as ''ann@example.org'' ''pw''),
      (AuthRefresh, 5000, post_with (Some (generateRefreshToken None 1000 ann))),
      (AuthRefresh, 604801000, post_with (Some (generateRefreshToken None 1000 ann)))]))
     = Some [Signed ''devsecret'' (Payload (RefreshClaims 1) 5 604805)]
   \<and> last (snd (run test_server [ann]
     [(AuthLogin, 1000, login_as ''ann@example.org'' ''pw''),
      (AuthRefresh, 5000, post_with (Some (generateRefreshToken None 1000 ann))),
      (AuthRefresh, 604801000, post_with (Some (generateRefreshToken None 1000 ann)))]))
     = \<lparr>status = 401, body = Error ''Invalid refresh token'',
        set_cookie =
          [Cookie ''access_token'' (Opaque []) (- 1),
           Cookie ''refresh_token'' (Opaque []) (- 1)]\<rparr>"
  by (simp add: codec_defs handler_defs example_defs)

text \<open>
  C1, amended. Let the ledger of an identity hold the refresh token \<open>t\<close> exactly
  once, and let \<open>t\<close> be redeemed, unexpired, in a later clock second than the one
  it was issued in. The redemption succeeds: 200 with a rotated access and
  refresh pair. Whatever logins, registrations, refreshes, logouts and
  introspections the server then serves, a second redemption of the same \<open>t\<close>
  is answered 403 (reuse detected) with the carriers cleared and that
  identity's ledger left empty as long as \<open>t\<close> has not expired, and 401 with
  the carriers cleared and the collection unchanged once it has. The carriers
  are set by two cookies that hold the new tokens for 15 minutes and 7 days,
  and cleared by two cookies of the same names with an empty value and
  \<^verbatim>\<open>maxAge\<close> -1.
\<close>

theorem refresh_token_single_use:
  assumes "distinct (map user_id d)"
    and "findById uid d = Some u"
    and "count_list (map token (refreshTokens u)) t = 1"
    and "verifyRefreshToken (env_JWT_SECRET cfg) now1 t = Some pl"
    and "userId (claims pl) = uid"
    and "iat pl < clock now1"
    and "\<forall>(r, now, req) \<in> set evs. now1 \<le> now"
    and "now1 \<le> now2"
    and "req_method req1 = ''POST''" and "refresh_token req1 = Some t"
    and "req_method req2 = ''POST''" and "refresh_token req2 = Some t"
  shows "(let (d1, res1) = refresh_handler (env_JWT_SECRET cfg) now1 d req1;
              d2 = fst (run cfg d1 evs);
              (d3, res3) = refresh_handler (env_JWT_SECRET cfg) now2 d2 req2
          in res1 =
               \<lparr>status = 200,
                body = OkToken (Signed (JWT_SECRET (env_JWT_SECRET cfg))
                         (Payload (AccessClaims uid (email u) (isAdmin u))
                            (clock now1) (clock now1 + 15 * 60))),
                set_cookie =
                  [Cookie ''access_token''
                     (Signed (JWT_SECRET (env_JWT_SECRET cfg))
                        (Payload (AccessClaims uid (email u) (isAdmin u))
                           (clock now1) (clock now1 + 15 * 60)))
                     (15 * 60),
                   Cookie ''refresh_token''
                     (Signed (JWT_SECRET (env_JWT_SECRET cfg))
                        (Payload (RefreshClaims uid)
                           (clock now1) (clock now1 + 7 * 24 * 60 * 60)))
                     (7 * 24 * 60 * 60)]\<rparr>
             \<and> (if clock now2 < exp pl
                 then res3 =
                        \<lparr>status = 403, body = Error ''Refresh token reuse detected'',
                         set_cookie =
                           [Cookie ''access_token'' (Opaque []) (- 1),
                            Cookie ''refresh_token'' (Opaque []) (- 1)]\<rparr>
                      \<and> ledger uid d3 = Some []
                 else res3 =
                        \<lparr>status = 401, body = Error ''Invalid refresh token'',
                         set_cookie =
                           [Cookie ''access_token'' (Opaque []) (- 1),
                            Cookie ''refresh_token'' (Opaque []) (- 1)]\<rparr>
                      \<and> d3 = d2))"
proof -
  let ?env = "env_JWT_SECRET cfg"
  from verify_Some [OF assms(4)] have t: "t = Signed (JWT_SECRET ?env) pl" by simp
  have later: "generateRefreshToken ?env now v \<noteq> t" if "now1 \<le> now" for now v
  proof -
    from that have "clock now1 \<le> clock now" by (simp add: clock_def div_le_mono)
    with assms(6) have "iat pl < clock now" by simp
    then show ?thesis unfolding t by (rule generated_later)
  qed
  from assms(3) have "t \<in> set (map token (refreshTokens u))"
    using count_list_0_iff [of "map token (refreshTokens u)" t] by auto
  then obtain i where i: "findIndex (\<lambda>e. token e = t) (refreshTokens u) = Some i"
    using findIndex_present by blast
  let ?u1 = "u\<lparr>refreshTokens := rotation ?env now1 u i\<rparr>"
  let ?d1 = "save ?u1 d"
  have first: "refresh_handler ?env now1 d req1 =
      (?d1, json_cookies 200 (OkToken (generateAccessToken ?env now1 u))
              (setAuthCookies (generateAccessToken ?env now1 u) (generateRefreshToken ?env now1 u)))"
    using assms(9,10,4) _ i by (rule refresh_rotates) (simp add: assms(5,2))
  have gone: "t \<notin> set (map token (rotation ?env now1 u i))"
    using set_rotation [of ?env now1 u i] splice1_removes_single [OF i assms(3)]
      later [of now1 u] by auto
  have "findById uid ?d1 = Some ?u1"
    using assms(2) findById_user_id [OF assms(2)] by (simp add: findById_save)
  with gone assms(1) have "absent t uid ?d1"
    by (simp add: absent_def map_user_id_save)
  moreover have "\<forall>(r, now, req) \<in> set evs. \<forall>v. generateRefreshToken ?env now v \<noteq> t"
    using assms(7) later by blast
  ultimately have abs2: "absent t uid (fst (run cfg ?d1 evs))"
    by (rule absent_run)
  let ?d2 = "fst (run cfg ?d1 evs)"
  from abs2 obtain u2 where u2: "findById uid ?d2 = Some u2"
    "t \<notin> set (map token (refreshTokens u2))"
    by (auto simp: absent_def)
  have second: "refresh_handler ?env now2 ?d2 req2 =
      (if clock now2 < exp pl
       then (save (u2\<lparr>refreshTokens := []\<rparr>) ?d2,
             json_cookies 403 (Error ''Refresh token reuse detected'') clearAuthCookies)
       else (?d2, json_cookies 401 (Error ''Invalid refresh token'') clearAuthCookies))"
  proof (cases "clock now2 < exp pl")
    case True
    then have v: "verifyRefreshToken ?env now2 t = Some pl"
      by (simp add: t verifyRefreshToken_def)
    show ?thesis
      using refresh_reuse [OF assms(11,12) v _ u2(2), of ?d2] u2(1) True
      by (simp add: assms(5))
  next
    case False
    then have "verifyRefreshToken ?env now2 t = None"
      by (simp add: t verifyRefreshToken_def)
    with assms(11,12) show ?thesis
      using False by (simp add: refresh_invalid t)
  qed
  have "ledger uid (save (u2\<lparr>refreshTokens := []\<rparr>) ?d2) = Some []"
    using u2(1) findById_user_id [OF u2(1)] by (simp add: ledger_def findById_save)
  then show ?thesis
    using findById_user_id [OF assms(2)]
    by (simp add: first second json_cookies_def setAuthCookies_def clearAuthCookies_def
        generateAccessToken_def generateRefreshToken_def jwt_sign_def
        ACCESS_TOKEN_EXPIRY_def REFRESH_TOKEN_EXPIRY_def)
qed

theorem refresh_token_single_use_witness:
  "(let (d1, res1) = refresh_handler None 5000 [sessions ann [1000], bob]
                       (post_with (Some (Signed ''devsecret'' (Payload (RefreshClaims 1) 1 604801))));
        d2 = fst (run test_server d1
                    [(AuthLogin, 6000, login_as ''ann@example.org'' ''pw''),
                     (AuthLogout, 7000,
                      post_with (Some (Signed ''devsecret'' (Payload (RefreshClaims 1) 6 604806))))]);
        (d3, res3) = refresh_handler None 9000 d2
                       (post_with (Some (Signed ''devsecret'' (Payload (RefreshClaims 1) 1 604801))))
    in res1 =
         \<lparr>status = 200,
          body = OkToken (Signed ''devsecret''
                   (Payload (AccessClaims 1 ''ann@example.org'' False) 5 905)),
          set_cookie =
            [Cookie ''access_token''
               (Signed ''devsecret'' (Payload (AccessClaims 1 ''ann@example.org'' False) 5 905))
               900,
             Cookie ''refresh_token''
               (Signed ''devsecret'' (Payload (RefreshClaims 1) 5 604805)) 604800]\<rparr>
       \<and> res3 =
           \<lparr>status = 403, body = Error ''Refresh token reuse detected'',
            set_cookie =
              [Cookie ''access_token'' (Opaque []) (- 1),
               Cookie ''refresh_token'' (Opaque []) (- 1)]\<rparr>
       \<and> ledger 1 d3 = Some [])"
proof -
  have "distinct (map user_id [sessions ann [1000], bob])"
    by (simp add: example_defs)
  moreover have "findById 1 [sessions ann [1000], bob] = Some (sessions ann [1000])"
    by (simp add: example_defs findById_def)
  moreover have "count_list (map token (refreshTokens (sessions ann [1000])))
                   (Signed ''devsecret'' (Payload (RefreshClaims 1) 1 604801)) = 1"
    by (simp add: example_defs codec_defs)
  moreover have "verifyRefreshToken (env_JWT_SECRET test_server) 5000
                   (Signed ''devsecret'' (Payload (RefreshClaims 1) 1 604801))
                 = Some (Payload (RefreshClaims 1) 1 604801)"
    by (simp add: example_defs codec_defs)
  moreover have "userId (claims (Payload (RefreshClaims 1) 1 604801)) = 1"
    by simp
  moreover have "iat (Payload (RefreshClaims 1) 1 604801) < clock 5000"
    by (simp add: clock_def)
  moreover have "\<forall>(r, now, req) \<in> set
        [(AuthLogin, 6000, login_as ''ann@example.org'' ''pw''),
         (AuthLogout, 7000,
          post_with (Some (Signed ''devsecret'' (Payload (RefreshClaims 1) 6 604806))))].
        (5000::nat) \<le> now"
    by simp
  moreover have "(5000::nat) \<le> 9000" by simp
  moreover have
    "req_method (post_with (Some (Signed ''devsecret'' (Payload (RefreshClaims 1) 1 604801))))
       = ''POST''"
    "refresh_token (post_with (Some (Signed ''devsecret'' (Payload (RefreshClaims 1) 1 604801))))
       = Some (Signed ''devsecret'' (Payload (RefreshClaims 1) 1 604801))"
    by (simp_all add: example_defs)
  ultimately show ?thesis
    using refresh_token_single_use
      [of "[sessions ann [1000], bob]" 1 "sessions ann [1000]"
          "Signed ''devsecret'' (Payload (RefreshClaims 1) 1 604801)" test_server 5000
          "Payload (RefreshClaims 1) 1 604801"
          "[(AuthLogin, 6000, login_as ''ann@example.org'' ''pw''),
            (AuthLogout, 7000,
             post_with (Some (Signed ''devsecret'' (Payload (RefreshClaims 1) 6 604806))))]"
          9000
          "post_with (Some (Signed ''devsecret'' (Payload (RefreshClaims 1) 1 604801)))"
          "post_with (Some (Signed ''devsecret'' (Payload (RefreshClaims 1) 1 604801)))"]
    by (simp add: example_defs codec_defs split: prod.splits)
qed

section \<open>Two redemptions in progress at once\<close>

text \<open>
  A call that holds a document with the presented token in its ledger is past
  the rotation check: whatever the collection has become in the meantime and
  whatever \<^verbatim>\<open>save\<close> does, its next step does not answer 403.
\<close>

lemma holding_never_reuse:
  assumes "call_at c = Holding u" and "refresh_token (call_req c) = Some t"
    and "t \<in> set (map token (refreshTokens u))"
  shows "sent_status (snd (advance store env now d c)) \<noteq> Some 403"
proof -
  from assms(3) obtain i where "findIndex (\<lambda>e. token e = t) (refreshTokens u) = Some i"
    using findIndex_present by blast
  then show ?thesis
    using assms(1,2)
    by (simp add: advance_def refresh_update_def sent_status_def json_cookies_def
        split: option.splits)
qed

text \<open>
  C2. The claim has exactly one of two concurrent redemptions of a token
  answered 200 and the other 403. A call decides between rotation and reuse on
  the document it has read. Two calls present Ann's only token; both read her
  document (at seconds 5 and 6) before either saves (at seconds 7 and 8).
  However \<^verbatim>\<open>save\<close> treats the second write, neither call is answered 403: each
  has found the token and either sends its 200 or throws in \<^verbatim>\<open>save\<close>. When
  \<^verbatim>\<open>save\<close> overwrites, both are answered 200 with a rotated pair, and the ledger
  is left with the second call's token alone. Served one after the other, the
  same two calls are answered 200 and 403.
\<close>

theorem interleaved_refresh_both_rotate:
  "(\<forall>store. Some 403 \<notin> set (map sent_status (snd (interleave store None [sessions ann [1000]]
        [\<lparr>call_req = post_with (Some (generateRefreshToken None 1000 ann)), call_at = Started\<rparr>,
         \<lparr>call_req = post_with (Some (generateRefreshToken None 1000 ann)), call_at = Started\<rparr>]
        [(0, 5000), (1, 6000), (0, 7000), (1, 8000)]))))
   \<and> map sent_status (snd (interleave overwrite None [sessions ann [1000]]
        [\<lparr>call_req = post_with (Some (generateRefreshToken None 1000 ann)), call_at = Started\<rparr>,
         \<lparr>call_req = post_with (Some (generateRefreshToken None 1000 ann)), call_at = Started\<rparr>]
        [(0, 5000), (1, 6000), (0, 7000), (1, 8000)]))
       = [Some 200, Some 200]
   \<and> ledger 1 (fst (interleave overwrite None [sessions ann [1000]]
        [\<lparr>call_req = post_with (Some (generateRefreshToken None 1000 ann)), call_at = Started\<rparr>,
         \<lparr>call_req = post_with (Some (generateRefreshToken None 1000 ann)), call_at = Started\<rparr>]
        [(0, 5000), (1, 6000), (0, 7000), (1, 8000)]))
       = Some [generateRefreshToken None 8000 ann]
   \<and> map sent_status (snd (interleave overwrite None [sessions ann [1000]]
        [\<lparr>call_req = post_with (Some (generateRefreshToken None 1000 ann)), call_at = Started\<rparr>,
         \<lparr>call_req = post_with (Some (generateRefreshToken None 1000 ann)), call_at = Started\<rparr>]
        [(0, 5000), (0, 6000), (1, 7000), (1, 8000)]))
       = [Some 200, Some 403]"
  by (simp add: advance_def refresh_read_def refresh_update_def overwrite_def sent_status_def
      codec_defs handler_defs example_defs split: option.splits)

section \<open>The size of the ledger\<close>

text \<open>
  C3. The claim bounds the ledger by 10 after every login, registration and
  rotation. Only the refresh handler has the bound; the login handler pushes and
  saves. Eleven logins of one user, each answered 200, leave a ledger of eleven
  entries; after a twelfth login a rotation, which removes at most one entry
  beyond the one it redeems, still leaves eleven.
\<close>

theorem eleven_logins_overflow:
  "map status (snd (run test_server [ann]
      (map (\<lambda>k. (AuthLogin, k * 1000, login_as ''ann@example.org'' ''pw''))
         [1, 2, 3, 4, 5, 6, 7, 8, 9, 10, 11])))
     = [200, 200, 200, 200, 200, 200, 200, 200, 200, 200, 200]
   \<and> map_option length (ledger 1 (fst (run test_server [ann]
      (map (\<lambda>k. (AuthLogin, k * 1000, login_as ''ann@example.org'' ''pw''))
         [1, 2, 3, 4, 5, 6, 7, 8, 9, 10, 11])))) = Some 11
   \<and> map_option length (ledger 1 (fst (refresh_handler None 20000
        [sessions ann [1000, 2000, 3000, 4000, 5000, 6000, 7000, 8000, 9000, 10000, 11000,
           12000]]
        (post_with (Some (generateRefreshToken None 12000 ann)))))) = Some 11"
  by (simp add: codec_defs handler_defs example_defs)

section \<open>The client's refreshes for one expiry\<close>

text \<open>
  A refresh call that is itself answered 401 (here: no refresh cookie) comes
  back through the same interceptor while \<^verbatim>\<open>isRefreshing\<close> is set: it is queued
  behind itself. The interceptor that awaits it is never resumed,
  \<^verbatim>\<open>isRefreshing\<close> stays set, no page call is settled and the browser does not
  leave for the login page.
\<close>

lemma refresh_answered_401_is_queued:
  "(let (d, b) = exchange test_server [sessions ann [1000]]
        (three_calls (Some (generateAccessToken None 1000 ann)) None)
        [1000000, 1001000, 1002000, 1003000, 1004000]
    in map (\<lambda>c. (verb c, url c)) (sent b)
         = [(''GET'', ''/api/user/me''), (''GET'', ''/api/user/me''), (''GET'', ''/api/user/me''),
            (''POST'', ''/api/auth/refresh'')]
       \<and> in_flight b = []
       \<and> isRefreshing (coord b)
       \<and> map (\<lambda>(c, w). (verb c, url c)) (refreshSubscribers (coord b))
           = [(''GET'', ''/api/user/me''), (''GET'', ''/api/user/me''),
              (''POST'', ''/api/auth/refresh'')]
       \<and> settled b = []
       \<and> left b = [])"
  by (simp add: codec_defs handler_defs example_defs client_defs Let_def)

text \<open>
  C4. The claim has the coordinator make exactly one call to
  \<^verbatim>\<open>/api/auth/refresh\<close> for an expiry. Three page calls carry Ann's access token
  of second 1 as their bearer and are answered at seconds 1000, 1001 and 1002,
  when it has expired; her refresh cookie is good. The first 401 starts the
  refresh and the other two join the queue; the refresh is answered 200 and the
  three calls are replayed, the queued ones first and in their order. But a
  replay is the original request with the header it had, the request
  interceptor leaves a header that is set alone, and the server reads the
  bearer before the cookie: every replay is 401 again. The queued calls bear no
  \<^verbatim>\<open>_retry\<close> mark, so the 401 of the first replay starts a second refresh and,
  after it, the 401 of the next a third. The coordinator makes three calls to
  \<^verbatim>\<open>/api/auth/refresh\<close>, and each page call ends with 401. With no token in
  \<^verbatim>\<open>localStorage\<close> and none in the header, so that the cookie is the only
  carrier, the same three calls take one refresh and are answered 200.
\<close>

theorem stale_header_refreshes_thrice:
  "(let (d, b) = exchange test_server [sessions ann [1000]]
        (three_calls (Some (generateAccessToken None 1000 ann))
           (Some (generateRefreshToken None 1000 ann)))
        [1000000, 1001000, 1002000, 1003000, 1004000, 1005000, 1006000, 1007000, 1008000,
         1009000, 1010000, 1011000]
    in map (\<lambda>c. (verb c, url c, retry c)) (sent b)
         = [(''GET'', ''/api/user/me'', False), (''GET'', ''/api/user/me'', False),
            (''GET'', ''/api/user/me'', False),
            (''POST'', ''/api/auth/refresh'', False),
            (''GET'', ''/api/user/me'', False), (''GET'', ''/api/user/me'', False),
            (''GET'', ''/api/user/me'', True),
            (''POST'', ''/api/auth/refresh'', False),
            (''GET'', ''/api/user/me'', False), (''GET'', ''/api/user/me'', True),
            (''POST'', ''/api/auth/refresh'', False),
            (''GET'', ''/api/user/me'', True)]
       \<and> remdups (map Authorization (filter (\<lambda>c. url c = ''/api/user/me'') (sent b)))
           = [Some [Opaque ''Bearer'',
                    Signed ''devsecret''
                      (Payload (AccessClaims 1 ''ann@example.org'' False) 1 901)]]
       \<and> map (\<lambda>(c, st). (url c, st)) (settled b)
           = [(''/api/user/me'', 401), (''/api/user/me'', 401), (''/api/user/me'', 401)]
       \<and> in_flight b = []
       \<and> coord b = \<lparr>isRefreshing = False, refreshSubscribers = []\<rparr>)
   \<and> (let (d, b) = exchange test_server [sessions ann [1000]]
        (three_calls None (Some (generateRefreshToken None 1000 ann)))
        [1000000, 1001000, 1002000, 1003000, 1004000, 1005000, 1006000, 1007000, 1008000,
         1009000, 1010000, 1011000]
    in map (\<lambda>c. (verb c, url c, retry c)) (sent b)
         = [(''GET'', ''/api/user/me'', False), (''GET'', ''/api/user/me'', False),
            (''GET'', ''/api/user/me'', False),
            (''POST'', ''/api/auth/refresh'', False),
            (''GET'', ''/api/user/me'', False), (''GET'', ''/api/user/me'', False),
            (''GET'', ''/api/user/me'', True)]
       \<and> map (\<lambda>(c, st). (url c, st)) (settled b)
           = [(''/api/user/me'', 200), (''/api/user/me'', 200), (''/api/user/me'', 200)]
       \<and> in_flight b = []
       \<and> coord b = \<lparr>isRefreshing = False, refreshSubscribers = []\<rparr>)"
  by (simp add: codec_defs handler_defs example_defs client_defs Let_def)

section \<open>A refresh token that does not verify\<close>

text \<open>
  C5. When the refresh cookie holds a token that does not verify (an opaque
  string, a token signed with another secret, or an expired one),
  \<^verbatim>\<open>POST /api/auth/refresh\<close> answers 401, clears both cookies (each is set
  again with an empty value and \<^verbatim>\<open>maxAge\<close> -1) and returns the collection as it
  found it: no ledger is read or written.
\<close>

theorem refresh_invalid_signature:
  assumes "req_method req = ''POST''" and "refresh_token req = Some t"
    and "case t of Opaque s \<Rightarrow> s \<noteq> []
         | Signed k p \<Rightarrow> k \<noteq> JWT_SECRET env \<or> exp p \<le> clock now"
  shows "verifyRefreshToken env now t = None
     \<and> refresh_handler env now d req =
           (d, \<lparr>status = 401, body = Error ''Invalid refresh token'',
                set_cookie =
                  [Cookie ''access_token'' (Opaque []) (- 1),
                   Cookie ''refresh_token'' (Opaque []) (- 1)]\<rparr>)"
proof -
  from assms(3) have "verifyRefreshToken env now t = None"
    by (simp add: verify_None_iff split: token.splits)
  moreover from assms(3) have "truthy t" by (cases t) auto
  ultimately show ?thesis
    using assms(1,2)
    by (simp add: refresh_handler_def falsy_def json_cookies_def clearAuthCookies_def)
qed

theorem refresh_invalid_signature_witness:
  "verifyRefreshToken None 604801000 (generateRefreshToken None 1000 ann) = None
   \<and> refresh_handler None 604801000 [sessions ann [1000], bob]
     (post_with (Some (generateRefreshToken None 1000 ann)))
   = ([sessions ann [1000], bob],
      \<lparr>status = 401, body = Error ''Invalid refresh token'',
       set_cookie =
         [Cookie ''access_token'' (Opaque []) (- 1),
          Cookie ''refresh_token'' (Opaque []) (- 1)]\<rparr>)"
  by (rule refresh_invalid_signature [where t = "generateRefreshToken None 1000 ann"])
     (simp_all add: codec_defs example_defs)

section \<open>Expiry of an access credential\<close>

text \<open>
  C6. An access credential carries \<open>issuedAt\<close> (its \<open>iat\<close> claim, the second it
  was signed in) and \<open>expiresAt = issuedAt + 15 min\<close>. Verification at the
  instant \<open>t\<close> (milliseconds) accepts it exactly when \<open>t\<close> is strictly before
  \<open>issuedAt + 15 min\<close>, and rejects it at that instant and at every later one:
  there is no tolerance.
\<close>

theorem access_token_expiry_exact:
  "(\<exists>p. generateAccessToken env now u = Signed (JWT_SECRET env) p
        \<and> exp p = iat p + 15 * 60
        \<and> iat p = clock now
        \<and> (verifyAccessToken env t (generateAccessToken env now u) = Some p)
            = (t < (iat p + 15 * 60) * 1000)
        \<and> (verifyAccessToken env t (generateAccessToken env now u) = None)
            = ((iat p + 15 * 60) * 1000 \<le> t))"
proof -
  have "(t div 1000 < now div 1000 + 900) = (t < (now div 1000 + 900) * 1000)"
    by (simp add: div_less_iff_less_mult)
  then show ?thesis
    by (auto simp: generateAccessToken_def verifyAccessToken_def jwt_sign_def clock_def
        ACCESS_TOKEN_EXPIRY_def)
qed

section \<open>The carriers of GET /api/auth/me\<close>

text \<open>
  C7. The claim has \<^verbatim>\<open>GET /api/auth/me\<close> accept a valid access credential in
  either carrier. The handler reads the cookie alone. Ann's access token,
  issued at second 0 and valid at second 1, is sent as \<^verbatim>\<open>Authorization: Bearer\<close>
  with no cookie: \<^verbatim>\<open>getUserFromReq\<close> and \<^verbatim>\<open>GET /api/user/me\<close>, which is built on
  it, accept the request, \<^verbatim>\<open>GET /api/auth/me\<close> answers 401. The same token in
  the cookie is accepted.
\<close>

theorem me_rejects_bearer_only:
  "verifyAccessToken None 1000 (generateAccessToken None 0 ann)
     = Some (Payload (AccessClaims 1 ''ann@example.org'' False) 0 900)
   \<and> getUserFromReq None 1000 [ann] (get_bearer (generateAccessToken None 0 ann)) = Some ann
   \<and> snd (user_me_handler None 1000 [ann] (get_bearer (generateAccessToken None 0 ann)))
       = \<lparr>status = 200, body = UserDoc (summary ann), set_cookie = []\<rparr>
   \<and> snd (me_handler None 1000 [ann] (get_cookie (generateAccessToken None 0 ann)))
       = \<lparr>status = 200, body = UserDoc (summary ann), set_cookie = []\<rparr>
   \<and> snd (me_handler None 1000 [ann] (get_bearer (generateAccessToken None 0 ann)))
       = \<lparr>status = 401, body = Error ''Not authenticated'', set_cookie = []\<rparr>"
  by (simp add: codec_defs handler_defs example_defs)

section \<open>Logout\<close>

text \<open>
  C8. \<^verbatim>\<open>POST /api/auth/logout\<close> always answers 200 with \<^verbatim>\<open>{ ok: true }\<close> and clears
  both cookies: each is set again with an empty value and \<^verbatim>\<open>maxAge\<close> -1. When the refresh cookie holds a token that some document's
  ledger holds, that token is removed from the ledger of such a document: its
  other entries stay, in their order, as do its other fields, and the document
  of every other id is as before. When no token is presented, or no ledger
  holds it, the collection is unchanged.
\<close>

theorem logout_removes_presented_token:
  assumes "req_method req = ''POST''" and "logout_handler d req = (d', res)"
  shows "res = \<lparr>status = 200, body = Ok,
                set_cookie =
                  [Cookie ''access_token'' (Opaque []) (- 1),
                   Cookie ''refresh_token'' (Opaque []) (- 1)]\<rparr>
     \<and> (if \<not> falsy (refresh_token req)
            \<and> (\<exists>u \<in> set d. the (refresh_token req) \<in> set (map token (refreshTokens u)))
         then \<exists>u \<in> set d. the (refresh_token req) \<in> set (map token (refreshTokens u))
                \<and> findById (user_id u) d'
                    = Some (u\<lparr>refreshTokens :=
                               filter (\<lambda>e. token e \<noteq> the (refresh_token req)) (refreshTokens u)\<rparr>)
                \<and> (\<forall>i. i \<noteq> user_id u \<longrightarrow> findById i d' = findById i d)
         else d' = d)"
proof -
  let ?t = "the (refresh_token req)"
  let ?P = "\<lambda>u. ?t \<in> set (map token (refreshTokens u))"
  have res: "res = \<lparr>status = 200, body = Ok,
                     set_cookie =
                       [Cookie ''access_token'' (Opaque []) (- 1),
                        Cookie ''refresh_token'' (Opaque []) (- 1)]\<rparr>"
    using assms by (auto simp: logout_handler_def json_cookies_def clearAuthCookies_def)
  show ?thesis
  proof (cases "\<not> falsy (refresh_token req) \<and> (\<exists>u \<in> set d. ?P u)")
    case True
    then obtain u where u: "findOne ?P d = Some u"
      using findOne_None [of ?P d] by (cases "findOne ?P d") auto
    let ?u' = "u\<lparr>refreshTokens := filter (\<lambda>e. token e \<noteq> ?t) (refreshTokens u)\<rparr>"
    from assms True u have d': "d' = save ?u' d"
      by (simp add: logout_handler_def)
    from findOne_in_set [OF u] have "u \<in> set d" "?P u" by simp_all
    moreover from findById_exists [OF \<open>u \<in> set d\<close>]
    have "findById (user_id u) d' = Some ?u'" by (auto simp: d' findById_save)
    moreover have "\<forall>i. i \<noteq> user_id u \<longrightarrow> findById i d' = findById i d"
      by (simp add: d' findById_save)
    ultimately show ?thesis using True res by auto
  next
    case False
    then have "falsy (refresh_token req) \<or> findOne ?P d = None"
      by (auto simp: findOne_None)
    with assms have "d' = d" by (auto simp: logout_handler_def)
    with res show ?thesis unfolding if_not_P [OF False] by simp
  qed
qed

theorem logout_removes_presented_token_witness:
  "logout_handler [sessions ann [1000, 2000], sessions bob [1000]]
     (post_with (Some (generateRefreshToken None 1000 ann)))
   = ([sessions ann [2000], sessions bob [1000]],
      \<lparr>status = 200, body = Ok,
       set_cookie =
         [Cookie ''access_token'' (Opaque []) (- 1),
          Cookie ''refresh_token'' (Opaque []) (- 1)]\<rparr>)"
  using logout_removes_presented_token
    [of "post_with (Some (generateRefreshToken None 1000 ann))"
        "[sessions ann [1000, 2000], sessions bob [1000]]"
        "fst (logout_handler [sessions ann [1000, 2000], sessions bob [1000]]
           (post_with (Some (generateRefreshToken None 1000 ann))))"
        "snd (logout_handler [sessions ann [1000, 2000], sessions bob [1000]]
           (post_with (Some (generateRefreshToken None 1000 ann))))"]
  by (simp add: codec_defs handler_defs example_defs)

section \<open>The value of a rotated refresh token\<close>

text \<open>
  C9. The claim has every rotation, also one right after login, issue a
  refresh token that differs from the one redeemed, so that a replay of the old
  one is answered 403. A refresh token is signed over the user id and the
  second of signing alone. Ann logs in at 5000 ms and redeems her token at
  5400 ms: the rotation issues the very token she presented, the ledger holds
  it again, and its replay at 5900 ms is once more answered 200.
\<close>

theorem same_second_rotation_repeats_token:
  "run test_server [ann]
     [(AuthLogin, 5000, login_as ''ann@example.org'' ''pw''),
      (AuthRefresh, 5400, post_with (Some (Signed ''devsecret'' (Payload (RefreshClaims 1) 5 604805)))),
      (AuthRefresh, 5900, post_with (Some (Signed ''devsecret'' (Payload (RefreshClaims 1) 5 604805))))]
   = ([ann\<lparr>refreshTokens :=
            [\<lparr>token = Signed ''devsecret'' (Payload (RefreshClaims 1) 5 604805),
              createdAt = 5900\<rparr>]\<rparr>],
      [\<lparr>status = 200,
        body = UserToken (summary ann)
                 (Signed ''devsecret'' (Payload (AccessClaims 1 ''ann@example.org'' False) 5 905)),
        set_cookie = setAuthCookies
                 (Signed ''devsecret'' (Payload (AccessClaims 1 ''ann@example.org'' False) 5 905))
                 (Signed ''devsecret'' (Payload (RefreshClaims 1) 5 604805))\<rparr>,
       \<lparr>status = 200,
        body = OkToken
                 (Signed ''devsecret'' (Payload (AccessClaims 1 ''ann@example.org'' False) 5 905)),
        set_cookie = setAuthCookies
                 (Signed ''devsecret'' (Payload (AccessClaims 1 ''ann@example.org'' False) 5 905))
                 (Signed ''devsecret'' (Payload (RefreshClaims 1) 5 604805))\<rparr>,
       \<lparr>status = 200,
        body = OkToken
                 (Signed ''devsecret'' (Payload (AccessClaims 1 ''ann@example.org'' False) 5 905)),
        set_cookie = setAuthCookies
                 (Signed ''devsecret'' (Payload (AccessClaims 1 ''ann@example.org'' False) 5 905))
                 (Signed ''devsecret'' (Payload (RefreshClaims 1) 5 604805))\<rparr>])"
  by (simp add: codec_defs handler_defs example_defs)

section \<open>The rotated token stays in the ledger\<close>

text \<open>
  C10. Whenever \<^verbatim>\<open>POST /api/auth/refresh\<close> answers 200, the refresh token it has
  issued and set as the cookie is in the ledger of the identity in the
  collection the handler leaves, as its last entry: the eviction removes the
  first entry of a ledger of more than ten, never the one just pushed.
\<close>

theorem rotation_keeps_new_token:
  assumes "refresh_handler env now d req = (d', res)" and "status res = 200"
  shows "\<exists>u ts. findById (user_id u) d = Some u
           \<and> ledger (user_id u) d' = Some ts \<and> ts \<noteq> []
           \<and> last ts = generateRefreshToken env now u
           \<and> generateRefreshToken env now u \<in> set ts
           \<and> set_cookie res = setAuthCookies (generateAccessToken env now u) (last ts)"
proof -
  from refresh_200 [OF assms] obtain pl u i where
    u: "findById (userId (claims pl)) d = Some u"
    and d': "d' = save (u\<lparr>refreshTokens := rotation env now u i\<rparr>) d"
    and res: "res = json_cookies 200 (OkToken (generateAccessToken env now u))
                 (setAuthCookies (generateAccessToken env now u)
                    (generateRefreshToken env now u))"
    by blast
  have id: "userId (claims pl) = user_id u" using findById_user_id [OF u] by simp
  let ?ts = "map token (rotation env now u i)"
  have "ledger (user_id u) d' = Some ?ts"
    using u by (simp add: d' ledger_def findById_save id)
  moreover have "findById (user_id u) d = Some u" using u id by simp
  moreover have "?ts \<noteq> []" "last ?ts = generateRefreshToken env now u"
    using last_rotation [of env now u i] by (simp_all add: last_map)
  moreover from this have "generateRefreshToken env now u \<in> set ?ts"
    using last_in_set [of ?ts] by simp
  ultimately show ?thesis
    by (intro exI [of _ u] exI [of _ ?ts]) (simp add: res json_cookies_def)
qed

theorem rotation_keeps_new_token_witness:
  "\<exists>u ts. findById (user_id u)
       [sessions ann [1000, 2000, 3000, 4000, 5000, 6000, 7000, 8000, 9000, 10000, 11000]]
       = Some u
     \<and> ledger (user_id u)
         (fst (refresh_handler None 20000
            [sessions ann [1000, 2000, 3000, 4000, 5000, 6000, 7000, 8000, 9000, 10000, 11000]]
            (post_with (Some (generateRefreshToken None 3000 ann))))) = Some ts
     \<and> ts \<noteq> []
     \<and> last ts = generateRefreshToken None 20000 u
     \<and> generateRefreshToken None 20000 u \<in> set ts
     \<and> set_cookie (snd (refresh_handler None 20000
            [sessions ann [1000, 2000, 3000, 4000, 5000, 6000, 7000, 8000, 9000, 10000, 11000]]
            (post_with (Some (generateRefreshToken None 3000 ann)))))
         = setAuthCookies (generateAccessToken None 20000 u) (last ts)"
  by (rule rotation_keeps_new_token [OF surjective_pairing])
     (simp add: codec_defs handler_defs example_defs)

end
